theory Spec2Isabelle
  imports Complex_Main "HOL-Library.Word" "HOL-Library.Signed_Division"
begin

unbundle bit_operations_syntax

section \<open>Data model\<close>

text \<open>
  The coder of \<^verbatim>\<open>internal/reedsolomon/reedsolomon.go\<close> works on byte slices. A Go
  slice is a window on a backing array: it has a length, a capacity, and it may be
  \<^verbatim>\<open>nil\<close>. A slice is modelled by its bytes together with the bytes of the backing
  array that lie between its length and its capacity; \<open>NilSlice\<close> is \<^verbatim>\<open>nil\<close>.
  The shards handed to one call are taken to lie in pairwise disjoint storage, so that
  writing one shard leaves the others as they are.

  Go's \<^verbatim>\<open>int\<close> is modelled by \<open>int\<close> where the source can see a negative value
  and by \<open>nat\<close> for lengths and for the shard counts of a coder (the constructor
  rejects counts that are not positive); lengths stay far below \<open>2^63\<close>, so no
  arithmetic of the source wraps around.
\<close>

type_synonym byte = "8 word"

datatype error =
    ErrInvShardNum
  | ErrMaxShardNum
  | ErrTooFewShards
  | ErrInvalidInput
  | ErrShardNoData
  | ErrShardSize
  | ErrShortData
  | ErrReconstructRequired
  | ErrShardCapacity
  | ErrShape
  | ErrSingular
  | ErrTreeInsert
  | ErrWriter
  | Panic

text \<open>
  \<open>ErrShardCapacity\<close> is the value \<^verbatim>\<open>errors.New("each shard must have capacity of at
  least len(data)/m")\<close> that SplitMulti builds on the spot; \<open>ErrShape\<close>,
  \<open>ErrSingular\<close> and \<open>ErrTreeInsert\<close> are the failures of the matrix and inversion-tree
  operations; \<open>ErrWriter\<close> is an error reported by the sink of Join; \<open>Panic\<close> is a
  run-time panic (index or slice bound out of range, division by zero).
\<close>

datatype slice = NilSlice | Slice "byte list" "byte list"

fun elems :: "slice \<Rightarrow> byte list" where
  "elems NilSlice = []"
| "elems (Slice xs sp) = xs"

fun backing :: "slice \<Rightarrow> byte list" where
  "backing NilSlice = []"
| "backing (Slice xs sp) = xs @ sp"

definition len :: "slice \<Rightarrow> nat" where
  "len s = length (elems s)"

definition cap :: "slice \<Rightarrow> nat" where
  "cap s = length (backing s)"

text \<open>\<^verbatim>\<open>make([]byte, n)\<close>: a fresh zeroed slice.\<close>

definition makeSlice :: "nat \<Rightarrow> slice" where
  "makeSlice n = Slice (replicate n 0) []"

text \<open>\<^verbatim>\<open>s[0:n]\<close> for \<open>n \<le> cap s\<close>; re-slicing \<^verbatim>\<open>nil\<close> to length 0 gives \<^verbatim>\<open>nil\<close>.\<close>

definition reslice :: "slice \<Rightarrow> nat \<Rightarrow> slice" where
  "reslice s n = (if s = NilSlice then NilSlice else Slice (take n (backing s)) (drop n (backing s)))"

text \<open>Writing \<open>bs\<close> (as many bytes as the slice is long) into the slice in place.\<close>

fun store :: "slice \<Rightarrow> byte list \<Rightarrow> slice" where
  "store NilSlice bs = NilSlice"
| "store (Slice xs sp) bs = Slice bs sp"

type_synonym matrix = "byte list list"

record options =
  useCauchy :: bool
  usePAR1Matrix :: bool
  maxGoroutines :: int
  minSplitSize :: int

text \<open>
  The inversion tree caches decode matrices under the list of invalid row indices. Its
  source file is not part of the material at hand; it is modelled from the specification
  as a root matrix (the identity, for the empty list) and an association list.
\<close>

record inversionTree =
  treeRoot :: matrix
  treeParity :: nat
  treeCache :: "(nat list \<times> matrix) list"

record ReedSolomon =
  DataShards :: nat
  ParityShards :: nat
  Shards :: nat
  m_matrix :: matrix
  tree :: inversionTree
  parity :: matrix
  o_options :: options

section \<open>Shard checks\<close>

fun shardSize :: "slice list \<Rightarrow> nat" where
  "shardSize [] = 0"
| "shardSize (shard # shards) = (if len shard \<noteq> 0 then len shard else shardSize shards)"

fun checkSizes :: "slice list \<Rightarrow> nat \<Rightarrow> bool \<Rightarrow> error option" where
  "checkSizes [] sz nilok = None"
| "checkSizes (shard # shards) sz nilok =
     (if len shard \<noteq> sz \<and> (len shard \<noteq> 0 \<or> \<not> nilok) then Some ErrShardSize
      else checkSizes shards sz nilok)"

definition checkShards :: "slice list \<Rightarrow> bool \<Rightarrow> error option" where
  "checkShards shards nilok =
     (let sz = shardSize shards in
      if sz = 0 then Some ErrShardNoData else checkSizes shards sz nilok)"

section \<open>Split and Join\<close>

fun splitShards :: "nat \<Rightarrow> nat \<Rightarrow> byte list \<Rightarrow> slice list" where
  "splitShards 0 perShard data = []"
| "splitShards (Suc n) perShard data =
     Slice (take perShard data) (drop perShard data) # splitShards n perShard (drop perShard data)"

text \<open>
  Split: the data slice is first extended to its capacity, then padded with zero bytes
  up to \<open>Shards * perShard\<close>, then cut into \<open>Shards\<close> windows of \<open>perShard\<close> bytes.
\<close>

definition Split :: "ReedSolomon \<Rightarrow> slice \<Rightarrow> error + slice list" where
  "Split r data =
     (if len data = 0 then Inl ErrShortData
      else if DataShards r = 0 then Inl Panic
      else
        let perShard = (len data + DataShards r - 1) div DataShards r;
            data1 = (if cap data > len data then backing data else elems data);
            data2 = (if length data1 < Shards r * perShard
                     then data1 @ replicate (Shards r * perShard - length data1) 0
                     else data1)
        in Inr (splitShards (Shards r) perShard data2))"

text \<open>
  The sink of Join is an \<^verbatim>\<open>io.Writer\<close>: a state \<open>'w\<close> and a write operation that
  returns the new state, the number of bytes written and an error or none.
  \<open>bufferWrite\<close> is the writer of a byte buffer, which appends and never fails.
\<close>

type_synonym 'w writer = "'w \<Rightarrow> byte list \<Rightarrow> 'w \<times> int \<times> error option"

definition bufferWrite :: "(byte list) writer" where
  "bufferWrite buf p = (buf @ p, int (length p), None)"

text \<open>The first loop of Join: sum the shard lengths, stop once \<open>outSize\<close> is reached.\<close>

fun joinSize :: "slice list \<Rightarrow> int \<Rightarrow> int \<Rightarrow> error + int" where
  "joinSize [] outSize sz = Inr sz"
| "joinSize (shard # shards) outSize sz =
     (if shard = NilSlice then Inl ErrReconstructRequired
      else let sz' = sz + int (len shard)
           in if sz' \<ge> outSize then Inr sz' else joinSize shards outSize sz')"

text \<open>The second loop of Join: copy to the sink.\<close>

fun joinWrite :: "'w writer \<Rightarrow> 'w \<Rightarrow> slice list \<Rightarrow> int \<Rightarrow> 'w \<times> error option" where
  "joinWrite wr dst [] write = (dst, None)"
| "joinWrite wr dst (shard # shards) write =
     (if write < int (len shard) then
        (if write < 0 then (dst, Some Panic)
         else case wr dst (take (nat write) (elems shard)) of (dst', n, err) \<Rightarrow> (dst', err))
      else
        (case wr dst (elems shard) of
           (dst', n, err) \<Rightarrow>
             if err \<noteq> None then (dst', err) else joinWrite wr dst' shards (write - n)))"

definition Join :: "ReedSolomon \<Rightarrow> 'w writer \<Rightarrow> 'w \<Rightarrow> slice list \<Rightarrow> int \<Rightarrow> 'w \<times> error option" where
  "Join r wr dst shards outSize =
     (if length shards < DataShards r then (dst, Some ErrTooFewShards)
      else
        let shards' = take (DataShards r) shards in
        case joinSize shards' outSize 0 of
          Inl e \<Rightarrow> (dst, Some e)
        | Inr sz \<Rightarrow>
            if sz < outSize then (dst, Some ErrShortData)
            else joinWrite wr dst shards' outSize)"

section \<open>GF(2^8) arithmetic\<close>

text \<open>
  Modelled from the spec: the source file of the field arithmetic (\<^verbatim>\<open>galMul\<close>,
  \<^verbatim>\<open>galExp\<close>, \<^verbatim>\<open>invTable\<close> and the slice kernels) is not part of the material at
  hand. The specification fixes addition as XOR and multiplication as multiplication
  of polynomials over GF(2) modulo a polynomial of degree 8, which it names both as
  \<open>x^8+x^4+x^3+x+1\<close> and as \<^verbatim>\<open>0x11d\<close>; the two differ. The model takes the
  constant \<^verbatim>\<open>0x11d\<close>, that is \<open>x^8+x^4+x^3+x^2+1\<close>, and multiplies by shift and add:
  \<open>xtime\<close> multiplies by \<open>x\<close> and reduces.
\<close>

definition galAdd :: "byte \<Rightarrow> byte \<Rightarrow> byte" where
  "galAdd a b = a XOR b"

definition xtime :: "byte \<Rightarrow> byte" where
  "xtime a = (if bit a 7 then push_bit 1 a XOR 0x1d else push_bit 1 a)"

fun galMulBits :: "nat \<Rightarrow> byte \<Rightarrow> byte \<Rightarrow> byte" where
  "galMulBits 0 a b = 0"
| "galMulBits (Suc n) a b =
     (if bit b 0 then a else 0) XOR galMulBits n (xtime a) (drop_bit 1 b)"

definition galMul :: "byte \<Rightarrow> byte \<Rightarrow> byte" where
  "galMul a b = galMulBits 8 a b"

text \<open>Modelled from the spec: \<open>galExp a n\<close> is the \<open>n\<close>-th power, with \<open>galExp a 0 = 1\<close>.\<close>

primrec galExp :: "byte \<Rightarrow> nat \<Rightarrow> byte" where
  "galExp a 0 = 1"
| "galExp a (Suc n) = galMul a (galExp a n)"

text \<open>
  Modelled from the spec: \<open>invTable\<close> is the precomputed table of multiplicative
  inverses; the entry at 0, which the specification leaves open, is 0.
\<close>

definition invTableList :: "byte list" where
  "invTableList = [
      0, 1, 142, 244, 71, 167, 122, 186, 173, 157, 221, 152, 61, 170, 93, 150,
      216, 114, 192, 88, 224, 62, 76, 102, 144, 222, 85, 128, 160, 131, 75, 42,
      108, 237, 57, 81, 96, 86, 44, 138, 112, 208, 31, 74, 38, 139, 51, 110,
      72, 137, 111, 46, 164, 195, 64, 94, 80, 34, 207, 169, 171, 12, 21, 225,
      54, 95, 248, 213, 146, 78, 166, 4, 48, 136, 43, 30, 22, 103, 69, 147,
      56, 35, 104, 140, 129, 26, 37, 97, 19, 193, 203, 99, 151, 14, 55, 65,
      36, 87, 202, 91, 185, 196, 23, 77, 82, 141, 239, 179, 32, 236, 47, 50,
      40, 209, 17, 217, 233, 251, 218, 121, 219, 119, 6, 187, 132, 205, 254, 252,
      27, 84, 161, 29, 124, 204, 228, 176, 73, 49, 39, 45, 83, 105, 2, 245,
      24, 223, 68, 79, 155, 188, 15, 92, 11, 220, 189, 148, 172, 9, 199, 162,
      28, 130, 159, 198, 52, 194, 70, 5, 206, 59, 13, 60, 156, 8, 190, 183,
      135, 229, 238, 107, 235, 242, 191, 175, 197, 100, 7, 123, 149, 154, 174, 182,
      18, 89, 165, 53, 101, 184, 163, 158, 210, 247, 98, 90, 133, 125, 168, 58,
      41, 113, 200, 246, 249, 67, 215, 214, 16, 115, 118, 120, 153, 10, 25, 145,
      20, 63, 230, 240, 134, 177, 226, 241, 250, 116, 243, 180, 109, 33, 178, 106,
      227, 231, 181, 234, 3, 143, 211, 201, 66, 212, 232, 117, 127, 255, 126, 253]"

definition invTable :: "byte \<Rightarrow> byte" where
  "invTable x = invTableList ! unat x"

text \<open>
  Modelled from the spec: the two slice kernels, over an input and an output of the
  same length. \<open>galMulSlice c inp out\<close> is the new content of \<open>out\<close> after
  \<open>out[i] = c \<cdot> inp[i]\<close>, \<open>galMulSliceXor c inp out\<close> after \<open>out[i] ^= c \<cdot> inp[i]\<close>.
  The SIMD hint flags do not change the result and are left out.
\<close>

definition galMulSlice :: "byte \<Rightarrow> byte list \<Rightarrow> byte list \<Rightarrow> byte list" where
  "galMulSlice c inp out = map (galMul c) inp"

definition galMulSliceXor :: "byte \<Rightarrow> byte list \<Rightarrow> byte list \<Rightarrow> byte list" where
  "galMulSliceXor c inp out = map2 (\<lambda>x y. y XOR galMul c x) inp out"

section \<open>Matrix algebra\<close>

text \<open>
  Modelled from the spec: the source file of the matrix type is not part of the material
  at hand. A matrix is a list of rows of equal length. \<open>Invert\<close> is the Gauss-Jordan
  elimination on \<open>[A | I]\<close> that the specification describes: per column, a pivot
  search below the diagonal with a row swap, the scaling of the pivot row by the inverse
  of the pivot, and the elimination of the column from every other row.
\<close>

definition mcols :: "matrix \<Rightarrow> nat" where
  "mcols mat = (case mat of [] \<Rightarrow> 0 | row # _ \<Rightarrow> length row)"

definition newMatrix :: "nat \<Rightarrow> nat \<Rightarrow> error + matrix" where
  "newMatrix rows cols =
     (if rows = 0 \<or> cols = 0 then Inl ErrShape else Inr (replicate rows (replicate cols 0)))"

definition identityMatrix :: "nat \<Rightarrow> matrix" where
  "identityMatrix n = map (\<lambda>r. map (\<lambda>c. if r = c then 1 else 0) [0..<n]) [0..<n]"

definition vandermonde :: "nat \<Rightarrow> nat \<Rightarrow> error + matrix" where
  "vandermonde rows cols =
     (case newMatrix rows cols of
        Inl e \<Rightarrow> Inl e
      | Inr result \<Rightarrow> Inr (map (\<lambda>r. map (\<lambda>c. galExp (of_nat r) c) [0..<cols]) [0..<rows]))"

definition SubMatrix :: "matrix \<Rightarrow> nat \<Rightarrow> nat \<Rightarrow> nat \<Rightarrow> nat \<Rightarrow> error + matrix" where
  "SubMatrix mat rmin cmin rmax cmax =
     (if rmin < rmax \<and> cmin < cmax \<and> rmax \<le> length mat \<and> cmax \<le> mcols mat
      then Inr (map (\<lambda>row. take (cmax - cmin) (drop cmin row)) (take (rmax - rmin) (drop rmin mat)))
      else Inl ErrShape)"

fun galDot :: "byte list \<Rightarrow> byte list \<Rightarrow> byte" where
  "galDot (x # xs) (y # ys) = galMul x y XOR galDot xs ys"
| "galDot xs ys = 0"

definition column :: "matrix \<Rightarrow> nat \<Rightarrow> byte list" where
  "column mat c = map (\<lambda>row. row ! c) mat"

definition Multiply :: "matrix \<Rightarrow> matrix \<Rightarrow> error + matrix" where
  "Multiply mat right =
     (if mcols mat \<noteq> length right then Inl ErrShape
      else Inr (map (\<lambda>row. map (\<lambda>c. galDot row (column right c)) [0..<mcols right]) mat))"

definition Augment :: "matrix \<Rightarrow> matrix \<Rightarrow> error + matrix" where
  "Augment mat right =
     (if length mat \<noteq> length right then Inl ErrShape else Inr (map2 (@) mat right))"

definition SwapRows :: "matrix \<Rightarrow> nat \<Rightarrow> nat \<Rightarrow> error + matrix" where
  "SwapRows mat r1 r2 =
     (if r1 < length mat \<and> r2 < length mat then Inr (mat[r1 := mat ! r2, r2 := mat ! r1])
      else Inl ErrShape)"

definition scaleRow :: "byte \<Rightarrow> byte list \<Rightarrow> byte list" where
  "scaleRow s row = map (galMul s) row"

definition addMulRow :: "byte \<Rightarrow> byte list \<Rightarrow> byte list \<Rightarrow> byte list" where
  "addMulRow s pivotRow row = map2 (\<lambda>x p. x XOR galMul s p) row pivotRow"

definition pivotRows :: "matrix \<Rightarrow> nat \<Rightarrow> error + matrix" where
  "pivotRows mat c =
     (if mat ! c ! c \<noteq> 0 then Inr mat
      else case find (\<lambda>r. mat ! r ! c \<noteq> 0) [Suc c..<length mat] of
             None \<Rightarrow> Inl ErrSingular
           | Some r \<Rightarrow> SwapRows mat c r)"

definition eliminate :: "matrix \<Rightarrow> nat \<Rightarrow> matrix" where
  "eliminate mat c =
     map (\<lambda>r. if r \<noteq> c \<and> mat ! r ! c \<noteq> 0 then addMulRow (mat ! r ! c) (mat ! c) (mat ! r)
              else mat ! r) [0..<length mat]"

definition gaussColumn :: "matrix \<Rightarrow> nat \<Rightarrow> error + matrix" where
  "gaussColumn mat c =
     (case pivotRows mat c of
        Inl e \<Rightarrow> Inl e
      | Inr mat1 \<Rightarrow>
          Inr (eliminate (mat1[c := scaleRow (invTable (mat1 ! c ! c)) (mat1 ! c)]) c))"

fun gaussJordan :: "matrix \<Rightarrow> nat list \<Rightarrow> error + matrix" where
  "gaussJordan mat [] = Inr mat"
| "gaussJordan mat (c # cs) =
     (case gaussColumn mat c of Inl e \<Rightarrow> Inl e | Inr mat' \<Rightarrow> gaussJordan mat' cs)"

definition Invert :: "matrix \<Rightarrow> error + matrix" where
  "Invert mat =
     (if mat = [] \<or> length mat \<noteq> mcols mat then Inl ErrShape
      else case Augment mat (identityMatrix (length mat)) of
             Inl e \<Rightarrow> Inl e
           | Inr work \<Rightarrow>
               (case gaussJordan work [0..<length mat] of
                  Inl e \<Rightarrow> Inl e
                | Inr work' \<Rightarrow> SubMatrix work' 0 (length mat) (length mat) (2 * length mat)))"

section \<open>Inversion tree\<close>

text \<open>
  Modelled from the spec: a lookup returns the cached matrix or a miss, the empty list
  of invalid indices maps to the identity; an insertion needs at most \<open>P\<close> indices, all
  below the total shard count, and is rejected otherwise; a key, once inserted, never
  changes its value.
\<close>

definition newInversionTree :: "nat \<Rightarrow> nat \<Rightarrow> inversionTree" where
  "newInversionTree dataShards parityShards =
     \<lparr>treeRoot = identityMatrix dataShards, treeParity = parityShards, treeCache = []\<rparr>"

definition GetInvertedMatrix :: "inversionTree \<Rightarrow> nat list \<Rightarrow> matrix option" where
  "GetInvertedMatrix t invalidIndices =
     (if invalidIndices = [] then Some (treeRoot t) else map_of (treeCache t) invalidIndices)"

definition InsertInvertedMatrix ::
  "inversionTree \<Rightarrow> nat list \<Rightarrow> matrix \<Rightarrow> nat \<Rightarrow> error + inversionTree" where
  "InsertInvertedMatrix t invalidIndices mat shards =
     (if length invalidIndices > treeParity t \<or> (\<exists>i \<in> set invalidIndices. i \<ge> shards)
      then Inl ErrTreeInsert
      else if GetInvertedMatrix t invalidIndices \<noteq> None then Inr t
      else Inr (t\<lparr>treeCache := (invalidIndices, mat) # treeCache t\<rparr>))"

section \<open>Construction of the coder\<close>

definition buildMatrix :: "nat \<Rightarrow> nat \<Rightarrow> error + matrix" where
  "buildMatrix dataShards totalShards =
     (case vandermonde totalShards dataShards of
        Inl e \<Rightarrow> Inl e
      | Inr vm \<Rightarrow>
          (case SubMatrix vm 0 0 dataShards dataShards of
             Inl e \<Rightarrow> Inl e
           | Inr topSquare \<Rightarrow>
               (case Invert topSquare of
                  Inl e \<Rightarrow> Inl e
                | Inr topInv \<Rightarrow> Multiply vm topInv)))"

definition buildMatrixPAR1 :: "nat \<Rightarrow> nat \<Rightarrow> error + matrix" where
  "buildMatrixPAR1 dataShards totalShards =
     (case newMatrix totalShards dataShards of
        Inl e \<Rightarrow> Inl e
      | Inr result \<Rightarrow>
          Inr (map (\<lambda>r. if r < dataShards then (result ! r)[r := 1]
                        else map (\<lambda>c. galExp (of_nat (c + 1)) (r - dataShards))
                               [0..<length (result ! r)])
                 [0..<length result]))"

definition buildMatrixCauchy :: "nat \<Rightarrow> nat \<Rightarrow> error + matrix" where
  "buildMatrixCauchy dataShards totalShards =
     (case newMatrix totalShards dataShards of
        Inl e \<Rightarrow> Inl e
      | Inr result \<Rightarrow>
          Inr (map (\<lambda>r. if r < dataShards then (result ! r)[r := 1]
                        else map (\<lambda>c. invTable (of_nat (r XOR c))) [0..<length (result ! r)])
                 [0..<length result]))"

text \<open>
  New: the options record is the default record with the caller's options applied (the
  defaults are declared outside the material at hand, so the record is a parameter).
\<close>

definition New :: "int \<Rightarrow> int \<Rightarrow> options \<Rightarrow> error + ReedSolomon" where
  "New dataShards parityShards opts =
     (if dataShards \<le> 0 \<or> parityShards \<le> 0 then Inl ErrInvShardNum
      else if dataShards + parityShards > 256 then Inl ErrMaxShardNum
      else
        case (if useCauchy opts then buildMatrixCauchy (nat dataShards) (nat (dataShards + parityShards))
              else if usePAR1Matrix opts then buildMatrixPAR1 (nat dataShards) (nat (dataShards + parityShards))
              else buildMatrix (nat dataShards) (nat (dataShards + parityShards))) of
          Inl e \<Rightarrow> Inl e
        | Inr mat \<Rightarrow>
            Inr \<lparr>DataShards = nat dataShards, ParityShards = nat parityShards,
                 Shards = nat (dataShards + parityShards), m_matrix = mat,
                 tree = newInversionTree (nat dataShards) (nat parityShards),
                 parity = map (\<lambda>i. mat ! (nat dataShards + i)) [0..<nat parityShards],
                 o_options = opts\<rparr>)"

section \<open>Encode\<close>

text \<open>\<open>seg start stop xs\<close> is \<^verbatim>\<open>xs[start:stop]\<close>; \<open>put start ys xs\<close> writes \<open>ys\<close> into \<open>xs\<close> from \<open>start\<close> on.\<close>

definition seg :: "nat \<Rightarrow> nat \<Rightarrow> 'a list \<Rightarrow> 'a list" where
  "seg start stop xs = take (stop - start) (drop start xs)"

definition put :: "nat \<Rightarrow> 'a list \<Rightarrow> 'a list \<Rightarrow> 'a list" where
  "put start ys xs = take start xs @ ys @ drop (start + length ys) xs"

text \<open>
  The inner loop over the output rows, for one input column \<open>c\<close> and the input segment
  \<open>inp\<close>: output row \<open>iRow\<close> is overwritten (\<open>galMulSlice\<close>) or accumulated into
  (\<open>galMulSliceXor\<close>) on the bytes from \<open>start\<close> to \<open>stop\<close>.
\<close>

fun codeRows ::
  "matrix \<Rightarrow> nat \<Rightarrow> bool \<Rightarrow> byte list \<Rightarrow> nat \<Rightarrow> nat \<Rightarrow> nat list \<Rightarrow> byte list list
     \<Rightarrow> error + byte list list" where
  "codeRows matrixRows c overwrite inp start stop [] outputs = Inr outputs"
| "codeRows matrixRows c overwrite inp start stop (iRow # iRows) outputs =
     (if iRow < length matrixRows \<and> c < length (matrixRows ! iRow) \<and>
         iRow < length outputs \<and> start \<le> stop \<and> stop \<le> length (outputs ! iRow)
      then
        let out = seg start stop (outputs ! iRow);
            out' = (if overwrite then galMulSlice (matrixRows ! iRow ! c) inp out
                    else galMulSliceXor (matrixRows ! iRow ! c) inp out)
        in codeRows matrixRows c overwrite inp start stop iRows
             (outputs[iRow := put start out' (outputs ! iRow)])
      else Inl Panic)"

text \<open>
  The body of one goroutine of codeSomeShardsP: the loop over the input columns, on the
  bytes from \<open>start\<close> to \<open>stop\<close>.
\<close>

fun codeCols ::
  "matrix \<Rightarrow> byte list list \<Rightarrow> nat \<Rightarrow> int \<Rightarrow> int \<Rightarrow> nat list \<Rightarrow> byte list list
     \<Rightarrow> error + byte list list" where
  "codeCols matrixRows inputs outputCount start stop [] outputs = Inr outputs"
| "codeCols matrixRows inputs outputCount start stop (c # cs) outputs =
     (if c < length inputs \<and> 0 \<le> start \<and> start \<le> stop \<and> stop \<le> int (length (inputs ! c))
      then
        (case codeRows matrixRows c (c = 0) (seg (nat start) (nat stop) (inputs ! c))
                (nat start) (nat stop) [0..<outputCount] outputs of
           Inl e \<Rightarrow> Inl e
         | Inr outputs' \<Rightarrow> codeCols matrixRows inputs outputCount start stop cs outputs')
      else Inl Panic)"

text \<open>
  The loop of codeSomeShardsP that cuts the bytes into segments. The goroutines write
  disjoint byte ranges of the outputs and only read the inputs, so they are run one
  after the other, in the order in which the loop starts them. The loop does not end
  when the segment size is 0: the result is then \<open>None\<close>.
\<close>

partial_function (option) codeSegments ::
  "ReedSolomon \<Rightarrow> matrix \<Rightarrow> byte list list \<Rightarrow> nat \<Rightarrow> int \<Rightarrow> int \<Rightarrow> int \<Rightarrow> byte list list
     \<Rightarrow> (error + byte list list) option" where
  "codeSegments r matrixRows inputs outputCount byteCount dosz start outputs =
     (if start < byteCount then
        (case codeCols matrixRows inputs outputCount start
                (start + (if start + dosz > byteCount then byteCount - start else dosz))
                [0..<DataShards r] outputs of
           Inl e \<Rightarrow> Some (Inl e)
         | Inr outputs' \<Rightarrow>
             codeSegments r matrixRows inputs outputCount byteCount
               (if start + dosz > byteCount then byteCount - start else dosz)
               (start + (if start + dosz > byteCount then byteCount - start else dosz))
               outputs')
      else Some (Inr outputs))"

definition codeSomeShardsP ::
  "ReedSolomon \<Rightarrow> matrix \<Rightarrow> byte list list \<Rightarrow> byte list list \<Rightarrow> nat \<Rightarrow> int
     \<Rightarrow> (error + byte list list) option" where
  "codeSomeShardsP r matrixRows inputs outputs outputCount byteCount =
     (if maxGoroutines (o_options r) = 0 then Some (Inl Panic)
      else
        let do0 = byteCount sdiv maxGoroutines (o_options r);
            do1 = (if do0 < minSplitSize (o_options r) then minSplitSize (o_options r) else do0);
            do2 = (do1 + 31) AND (NOT 31)
        in codeSegments r matrixRows inputs outputCount byteCount do2 0 outputs)"

text \<open>
  Encode returns the shard array as the call leaves it: the data shards, and the parity
  shards with their bytes overwritten in place.
\<close>

definition Encode :: "ReedSolomon \<Rightarrow> slice list \<Rightarrow> (error + slice list) option" where
  "Encode r shards =
     (if length shards \<noteq> Shards r then Some (Inl ErrTooFewShards)
      else case checkShards shards False of
        Some e \<Rightarrow> Some (Inl e)
      | None \<Rightarrow>
          if DataShards r > length shards then Some (Inl Panic)
          else
            (case codeSomeShardsP r (parity r) (map elems (take (DataShards r) shards))
                    (map elems (drop (DataShards r) shards)) (ParityShards r)
                    (int (len (shards ! 0))) of
               None \<Rightarrow> None
             | Some (Inl e) \<Rightarrow> Some (Inl e)
             | Some (Inr outs) \<Rightarrow>
                 Some (Inr (take (DataShards r) shards @
                            map2 store (drop (DataShards r) shards) outs))))"

section \<open>Verify\<close>

text \<open>
  The column loop of the checkers: every column is accumulated with \<open>galMulSliceXor\<close>
  into zeroed scratch outputs of the length of the segment.
\<close>

fun checkCols ::
  "matrix \<Rightarrow> byte list list \<Rightarrow> nat \<Rightarrow> int \<Rightarrow> int \<Rightarrow> nat list \<Rightarrow> byte list list
     \<Rightarrow> error + byte list list" where
  "checkCols matrixRows inputs outputCount start stop [] outputs = Inr outputs"
| "checkCols matrixRows inputs outputCount start stop (c # cs) outputs =
     (if c < length inputs \<and> 0 \<le> start \<and> start \<le> stop \<and> stop \<le> int (length (inputs ! c))
      then
        (case codeRows matrixRows c False (seg (nat start) (nat stop) (inputs ! c))
                0 (nat (stop - start)) [0..<outputCount] outputs of
           Inl e \<Rightarrow> Inl e
         | Inr outputs' \<Rightarrow> checkCols matrixRows inputs outputCount start stop cs outputs')
      else Inl Panic)"

text \<open>The comparison of the scratch outputs with the bytes to check, row by row.\<close>

fun compareRows :: "byte list list \<Rightarrow> byte list list \<Rightarrow> nat \<Rightarrow> nat \<Rightarrow> error + bool" where
  "compareRows [] toCheck start stop = Inr True"
| "compareRows (calc # outputs) [] start stop = Inl Panic"
| "compareRows (calc # outputs) (chk # toCheck) start stop =
     (if stop \<le> length chk then
        (if calc \<noteq> seg start stop chk then Inr False
         else compareRows outputs toCheck start stop)
      else Inl Panic)"

text \<open>
  One goroutine of checkSomeShardsP. The shared flag \<open>same\<close> only ever goes from true
  to false, and a goroutine that sees it false returns at once; run one after the other,
  a goroutine returns the flag it leaves behind.
\<close>

definition checkWorker ::
  "ReedSolomon \<Rightarrow> matrix \<Rightarrow> byte list list \<Rightarrow> byte list list \<Rightarrow> nat \<Rightarrow> int \<Rightarrow> int \<Rightarrow> bool
     \<Rightarrow> error + bool" where
  "checkWorker r matrixRows inputs toCheck outputCount start dosz same =
     (if dosz < 0 \<and> toCheck \<noteq> [] then Inl Panic
      else if \<not> same \<and> 0 < DataShards r then Inr same
      else
        case checkCols matrixRows inputs outputCount start (start + dosz) [0..<DataShards r]
               (replicate (length toCheck) (replicate (nat dosz) 0)) of
          Inl e \<Rightarrow> Inl e
        | Inr outputs \<Rightarrow>
            (case compareRows outputs toCheck (nat start) (nat (start + dosz)) of
               Inl e \<Rightarrow> Inl e
             | Inr eq \<Rightarrow> Inr (same \<and> eq)))"

partial_function (option) checkSegments ::
  "ReedSolomon \<Rightarrow> matrix \<Rightarrow> byte list list \<Rightarrow> byte list list \<Rightarrow> nat \<Rightarrow> int \<Rightarrow> int \<Rightarrow> int \<Rightarrow> bool
     \<Rightarrow> (error + bool) option" where
  "checkSegments r matrixRows inputs toCheck outputCount byteCount dosz start same =
     (if start < byteCount then
        (case checkWorker r matrixRows inputs toCheck outputCount start
                (if start + dosz > byteCount then byteCount - start else dosz) same of
           Inl e \<Rightarrow> Some (Inl e)
         | Inr same' \<Rightarrow>
             checkSegments r matrixRows inputs toCheck outputCount byteCount
               (if start + dosz > byteCount then byteCount - start else dosz)
               (start + (if start + dosz > byteCount then byteCount - start else dosz))
               same')
      else Some (Inr same))"

definition checkSomeShardsP ::
  "ReedSolomon \<Rightarrow> matrix \<Rightarrow> byte list list \<Rightarrow> byte list list \<Rightarrow> nat \<Rightarrow> int
     \<Rightarrow> (error + bool) option" where
  "checkSomeShardsP r matrixRows inputs toCheck outputCount byteCount =
     (if maxGoroutines (o_options r) = 0 then Some (Inl Panic)
      else
        let do0 = byteCount sdiv maxGoroutines (o_options r);
            do1 = (if do0 < minSplitSize (o_options r) then minSplitSize (o_options r) else do0);
            do2 = (do1 + 15) AND (NOT 15)
        in checkSegments r matrixRows inputs toCheck outputCount byteCount do2 0 True)"

fun equalRows :: "byte list list \<Rightarrow> byte list list \<Rightarrow> error + bool" where
  "equalRows [] toCheck = Inr True"
| "equalRows (calc # outputs) [] = Inl Panic"
| "equalRows (calc # outputs) (chk # toCheck) =
     (if calc \<noteq> chk then Inr False else equalRows outputs toCheck)"

definition checkSomeShards ::
  "ReedSolomon \<Rightarrow> matrix \<Rightarrow> byte list list \<Rightarrow> byte list list \<Rightarrow> nat \<Rightarrow> int
     \<Rightarrow> (error + bool) option" where
  "checkSomeShards r matrixRows inputs toCheck outputCount byteCount =
     (if maxGoroutines (o_options r) > 1 \<and> byteCount > minSplitSize (o_options r)
      then checkSomeShardsP r matrixRows inputs toCheck outputCount byteCount
      else
        case checkCols matrixRows inputs outputCount 0 byteCount [0..<DataShards r]
               (replicate (length toCheck) (replicate (nat byteCount) 0)) of
          Inl e \<Rightarrow> Some (Inl e)
        | Inr outputs \<Rightarrow> Some (equalRows outputs toCheck))"

definition Verify :: "ReedSolomon \<Rightarrow> slice list \<Rightarrow> (error + bool) option" where
  "Verify r shards =
     (if length shards \<noteq> Shards r then Some (Inl ErrTooFewShards)
      else case checkShards shards False of
        Some e \<Rightarrow> Some (Inl e)
      | None \<Rightarrow>
          if DataShards r > length shards then Some (Inl Panic)
          else checkSomeShards r (parity r) (map elems (take (DataShards r) shards))
                 (map elems (drop (DataShards r) shards)) (ParityShards r)
                 (int (len (shards ! 0))))"

section \<open>Reconstruct\<close>

text \<open>
  The loop that picks the first \<open>DataShards\<close> present shards: it collects their slices
  and row indices, and the indices of the empty shards met on the way.
\<close>

fun selectRows ::
  "slice list \<Rightarrow> nat \<Rightarrow> nat list \<Rightarrow> slice list \<Rightarrow> nat list \<Rightarrow> nat list
     \<Rightarrow> slice list \<times> nat list \<times> nat list" where
  "selectRows shards dataShards [] subShards validIndices invalidIndices =
     (subShards, validIndices, invalidIndices)"
| "selectRows shards dataShards (matrixRow # rest) subShards validIndices invalidIndices =
     (if length subShards < dataShards then
        (if len (shards ! matrixRow) \<noteq> 0
         then selectRows shards dataShards rest (subShards @ [shards ! matrixRow])
                (validIndices @ [matrixRow]) invalidIndices
         else selectRows shards dataShards rest subShards validIndices
                (invalidIndices @ [matrixRow]))
      else (subShards, validIndices, invalidIndices))"

text \<open>
  An empty shard that is to be computed: its storage is re-used when its capacity
  suffices, and allocated otherwise.
\<close>

definition prepare :: "slice \<Rightarrow> nat \<Rightarrow> slice" where
  "prepare shard sz = (if cap shard \<ge> sz then reslice shard sz else makeSlice sz)"

fun prepareShards :: "slice list \<Rightarrow> nat list \<Rightarrow> nat \<Rightarrow> slice list" where
  "prepareShards shards [] sz = shards"
| "prepareShards shards (iShard # rest) sz =
     prepareShards (shards[iShard := prepare (shards ! iShard) sz]) rest sz"

fun storeShards :: "slice list \<Rightarrow> nat list \<Rightarrow> byte list list \<Rightarrow> slice list" where
  "storeShards shards (iShard # rest) (out # outs) =
     storeShards (shards[iShard := store (shards ! iShard) out]) rest outs"
| "storeShards shards missing outs = shards"

text \<open>
  The decode matrix: taken from the inversion tree, or computed by inverting the rows of
  the coding matrix at the valid indices and then cached.
\<close>

definition decodeMatrix ::
  "ReedSolomon \<Rightarrow> nat list \<Rightarrow> nat list \<Rightarrow> error + matrix \<times> inversionTree" where
  "decodeMatrix r validIndices invalidIndices =
     (case GetInvertedMatrix (tree r) invalidIndices of
        Some dataDecodeMatrix \<Rightarrow> Inr (dataDecodeMatrix, tree r)
      | None \<Rightarrow>
          if list_all (\<lambda>validIndex. validIndex < length (m_matrix r) \<and>
                         DataShards r \<le> length (m_matrix r ! validIndex)) validIndices
          then
            (case Invert (map (\<lambda>validIndex. take (DataShards r) (m_matrix r ! validIndex))
                            validIndices) of
               Inl e \<Rightarrow> Inl e
             | Inr dataDecodeMatrix \<Rightarrow>
                 (case InsertInvertedMatrix (tree r) invalidIndices dataDecodeMatrix (Shards r) of
                    Inl e \<Rightarrow> Inl e
                  | Inr t \<Rightarrow> Inr (dataDecodeMatrix, t)))
          else Inl Panic)"

text \<open>
  One coding pass of reconstruct: the shards at the indices \<open>missing\<close> are prepared,
  computed from \<open>inputs\<close> with the given matrix rows, and written in place.
\<close>

definition recode ::
  "ReedSolomon \<Rightarrow> slice list \<Rightarrow> nat list \<Rightarrow> matrix \<Rightarrow> byte list list \<Rightarrow> nat
     \<Rightarrow> (error + slice list) option" where
  "recode r shards missing matrixRows inputs sz =
     (let shards1 = prepareShards shards missing sz in
      case codeSomeShardsP r matrixRows inputs (map (\<lambda>iShard. elems (shards1 ! iShard)) missing)
             (length missing) (int sz) of
        None \<Rightarrow> None
      | Some (Inl e) \<Rightarrow> Some (Inl e)
      | Some (Inr outs) \<Rightarrow> Some (Inr (storeShards shards1 missing outs)))"

text \<open>
  reconstruct returns the shard array and the inversion tree as the call leaves them.
  The scratch arrays of the source hold 256 entries, cut to \<open>DataShards\<close> and
  \<open>ParityShards\<close>: larger counts, or more outputs than \<open>ParityShards\<close>, panic.
\<close>

definition reconstruct ::
  "ReedSolomon \<Rightarrow> slice list \<Rightarrow> bool \<Rightarrow> (error + slice list \<times> inversionTree) option" where
  "reconstruct r shards dataOnly =
     (if length shards \<noteq> Shards r then Some (Inl ErrTooFewShards)
      else case checkShards shards True of
        Some e \<Rightarrow> Some (Inl e)
      | None \<Rightarrow>
          let sz = shardSize shards;
              numberPresent = length (filter (\<lambda>i. len (shards ! i) \<noteq> 0) [0..<Shards r]);
              dataPresent = length (filter (\<lambda>i. len (shards ! i) \<noteq> 0 \<and> i < DataShards r)
                                      [0..<Shards r])
          in
          if numberPresent = Shards r \<or> (dataOnly \<and> dataPresent = DataShards r)
          then Some (Inr (shards, tree r))
          else if numberPresent < DataShards r then Some (Inl ErrTooFewShards)
          else if DataShards r > 256 \<or> ParityShards r > 256 then Some (Inl Panic)
          else
            (case selectRows shards (DataShards r) [0..<Shards r] [] [] [] of
               (sub, valid, invalidIndices) \<Rightarrow>
                 let subShards = sub @ replicate (DataShards r - length sub) NilSlice;
                     validIndices = valid @ replicate (DataShards r - length valid) 0
                 in
                 (case decodeMatrix r validIndices invalidIndices of
                    Inl e \<Rightarrow> Some (Inl e)
                  | Inr (dataDecodeMatrix, t) \<Rightarrow>
                      let missing = filter (\<lambda>i. len (shards ! i) = 0) [0..<DataShards r] in
                      if length missing > ParityShards r \<or>
                         \<not> list_all (\<lambda>i. i < length dataDecodeMatrix) missing
                      then Some (Inl Panic)
                      else
                        (case recode r shards missing (map (\<lambda>i. dataDecodeMatrix ! i) missing)
                                (map elems subShards) sz of
                           None \<Rightarrow> None
                         | Some (Inl e) \<Rightarrow> Some (Inl e)
                         | Some (Inr shards2) \<Rightarrow>
                             if dataOnly then Some (Inr (shards2, t))
                             else
                               let missingP = filter (\<lambda>i. len (shards2 ! i) = 0)
                                                [DataShards r..<Shards r] in
                               if length missingP > ParityShards r \<or>
                                  \<not> list_all (\<lambda>i. i - DataShards r < length (parity r)) missingP
                               then Some (Inl Panic)
                               else
                                 (case recode r shards2 missingP
                                         (map (\<lambda>i. parity r ! (i - DataShards r)) missingP)
                                         (map elems (take (DataShards r) shards2)) sz of
                                    None \<Rightarrow> None
                                  | Some (Inl e) \<Rightarrow> Some (Inl e)
                                  | Some (Inr shards3) \<Rightarrow> Some (Inr (shards3, t)))))))"

definition Reconstruct ::
  "ReedSolomon \<Rightarrow> slice list \<Rightarrow> (error + slice list \<times> inversionTree) option" where
  "Reconstruct r shards = reconstruct r shards False"

definition ReconstructData ::
  "ReedSolomon \<Rightarrow> slice list \<Rightarrow> (error + slice list \<times> inversionTree) option" where
  "ReconstructData r shards = reconstruct r shards True"

section \<open>SplitMulti\<close>

text \<open>
  The first loop of SplitMulti: every supplied shard is re-sliced to \<open>shardSize\<close>. The
  loop stops at the first shard whose capacity is too small; the shards before it stay
  re-sliced.
\<close>

fun extendShards :: "slice list \<Rightarrow> int \<Rightarrow> slice list \<times> error option" where
  "extendShards [] sz = ([], None)"
| "extendShards (shard # shards) sz =
     (if int (cap shard) < sz then (shard # shards, Some ErrShardCapacity)
      else if sz < 0 then (shard # shards, Some Panic)
      else case extendShards shards sz of
             (shards', err) \<Rightarrow> (reslice shard (nat sz) # shards', err))"

text \<open>
  One round of the copy loop: \<^verbatim>\<open>copy(shards[i][off:], buf.Next(subsize))\<close> for the data
  shards in turn. \<open>buf\<close> is what is left of the data.
\<close>

function copyRound ::
  "nat list \<Rightarrow> int \<Rightarrow> int \<Rightarrow> byte list \<Rightarrow> slice list \<Rightarrow> error + byte list \<times> slice list" where
  "copyRound [] off subsize buf shards = Inr (buf, shards)"
| "copyRound (i # rest) off subsize buf shards =
     (if i < length shards \<and> 0 \<le> off \<and> off \<le> int (len (shards ! i)) \<and> 0 \<le> subsize then
        let chunk = take (nat subsize) buf;
            n = min (len (shards ! i) - nat off) (length chunk)
        in copyRound rest off subsize (drop (nat subsize) buf)
             (shards[i := store (shards ! i) (put (nat off) (take n chunk) (elems (shards ! i)))])
      else Inl Panic)"
  by pat_completeness auto
termination
  by (relation "measure (\<lambda>(is, off, subsize, buf, shards). length is)") auto

partial_function (option) copyLoop ::
  "nat \<Rightarrow> int \<Rightarrow> int \<Rightarrow> byte list \<Rightarrow> slice list \<Rightarrow> (error + slice list) option" where
  "copyLoop dataShards subsize off buf shards =
     (if length buf > 0 then
        (case copyRound [0..<dataShards] off subsize buf shards of
           Inl e \<Rightarrow> Some (Inl e)
         | Inr (buf', shards') \<Rightarrow> copyLoop dataShards subsize (off + subsize) buf' shards')
      else Some (Inr shards))"

text \<open>
  SplitMulti returns the shard array as the call leaves it, and the error or none. Go's
  division truncates towards zero (\<open>sdiv\<close>, \<open>smod\<close>), and a division by zero panics.
\<close>

definition SplitMulti ::
  "ReedSolomon \<Rightarrow> byte list \<Rightarrow> slice list \<Rightarrow> int \<Rightarrow> (slice list \<times> error option) option" where
  "SplitMulti r data shards subsize =
     (let chunkSize = int (DataShards r) * subsize in
      if chunkSize = 0 then Some (shards, Some Panic)
      else
        let numChunks = int (length data) sdiv chunkSize +
                        (if int (length data) smod chunkSize \<noteq> 0 then 1 else 0);
            sz = numChunks * subsize
        in case extendShards shards sz of
             (shards1, Some e) \<Rightarrow> Some (shards1, Some e)
           | (shards1, None) \<Rightarrow>
               (case copyLoop (DataShards r) subsize 0 data shards1 of
                  None \<Rightarrow> None
                | Some (Inl e) \<Rightarrow> Some (shards1, Some e)
                | Some (Inr shards2) \<Rightarrow> Some (shards2, None)))"

section \<open>Example coders\<close>

text \<open>
  The equations of the segment loops, for the evaluation of the model on concrete
  inputs.
\<close>

declare codeSegments.simps [code]

declare checkSegments.simps [code]

declare copyLoop.simps [code]

text \<open>
  A record of options with two goroutines and a minimal segment size of one byte, and
  the coder that \<open>New\<close> builds from it for two data shards and one parity shard.
\<close>

definition testOptions :: options where
  "testOptions =
     \<lparr>useCauchy = False, usePAR1Matrix = False, maxGoroutines = 2, minSplitSize = 1\<rparr>"

definition coder21 :: ReedSolomon where
  "coder21 =
     \<lparr>DataShards = 2, ParityShards = 1, Shards = 3,
      m_matrix = [[1, 0], [0, 1], [3, 2]],
      tree = \<lparr>treeRoot = [[1, 0], [0, 1]], treeParity = 1, treeCache = []\<rparr>,
      parity = [[3, 2]],
      o_options = testOptions\<rparr>"

lemma New_coder21: "New 2 1 testOptions = Inr coder21"
  by code_simp

section \<open>Join: the error returns\<close>

lemma joinSize_nil:
  "k < length xs \<Longrightarrow> xs ! k = NilSlice \<Longrightarrow> sz + sum_list (map (\<lambda>s. int (len s)) (take k xs)) < outSize
   \<Longrightarrow> joinSize xs outSize sz = Inl ErrReconstructRequired"
proof (induction xs arbitrary: k sz)
  case Nil
  then show ?case by simp
next
  case (Cons x xs)
  show ?case
  proof (cases k)
    case 0
    with Cons.prems show ?thesis by simp
  next
    case (Suc j)
    with Cons.prems have j: "j < length xs" "xs ! j = NilSlice"
      and s: "sz + int (len x) + sum_list (map (\<lambda>s. int (len s)) (take j xs)) < outSize"
      by simp_all
    have "0 \<le> sum_list (map (\<lambda>s. int (len s)) (take j xs))"
      by (rule sum_list_nonneg) auto
    with s have "\<not> outSize \<le> sz + int (len x)" by linarith
    with Cons.IH [OF j s] show ?thesis by (simp add: Let_def)
  qed
qed

lemma joinSize_short:
  "NilSlice \<notin> set xs \<Longrightarrow> sz + sum_list (map (\<lambda>s. int (len s)) xs) < outSize
   \<Longrightarrow> joinSize xs outSize sz = Inr (sz + sum_list (map (\<lambda>s. int (len s)) xs))"
proof (induction xs arbitrary: sz)
  case Nil
  then show ?case by simp
next
  case (Cons x xs)
  have "0 \<le> sum_list (map (\<lambda>s. int (len s)) xs)"
    by (rule sum_list_nonneg) auto
  with Cons.prems have "\<not> outSize \<le> sz + int (len x)" by simp
  with Cons.prems Cons.IH [of "sz + int (len x)"] show ?case
    by (auto simp add: Let_def add.assoc)
qed

text \<open>
  C7 (as amended). Join fails with TooFewShards when fewer than \<open>DataShards\<close> shards
  are supplied. When at least \<open>DataShards\<close> shards are supplied, it fails with
  ReconstructRequired when one of the first \<open>DataShards\<close> shards is \<^verbatim>\<open>nil\<close> and the
  shards before it hold fewer than \<open>outSize\<close> bytes together, and with ShortData when
  none of the first \<open>DataShards\<close> shards is \<^verbatim>\<open>nil\<close> and they hold fewer than
  \<open>outSize\<close> bytes together. In each case nothing is written to the sink.
\<close>

theorem Join_errors:
  "(length shards < DataShards r \<longrightarrow>
      Join r wr dst shards outSize = (dst, Some ErrTooFewShards)) \<and>
   (DataShards r \<le> length shards \<and> k < DataShards r \<and> shards ! k = NilSlice \<and>
      sum_list (map (\<lambda>s. int (len s)) (take k shards)) < outSize \<longrightarrow>
      Join r wr dst shards outSize = (dst, Some ErrReconstructRequired)) \<and>
   (DataShards r \<le> length shards \<and> NilSlice \<notin> set (take (DataShards r) shards) \<and>
      sum_list (map (\<lambda>s. int (len s)) (take (DataShards r) shards)) < outSize \<longrightarrow>
      Join r wr dst shards outSize = (dst, Some ErrShortData))"
proof (intro conjI impI)
  assume "length shards < DataShards r"
  then show "Join r wr dst shards outSize = (dst, Some ErrTooFewShards)"
    by (simp add: Join_def)
next
  assume k: "DataShards r \<le> length shards \<and> k < DataShards r \<and> shards ! k = NilSlice \<and>
            sum_list (map (\<lambda>s. int (len s)) (take k shards)) < outSize"
  let ?xs = "take (DataShards r) shards"
  from k have "k < length ?xs" "?xs ! k = NilSlice" by simp_all
  moreover from k have "0 + sum_list (map (\<lambda>s. int (len s)) (take k ?xs)) < outSize"
    by (simp add: min_def)
  ultimately have "joinSize ?xs outSize 0 = Inl ErrReconstructRequired"
    by (rule joinSize_nil)
  with k show "Join r wr dst shards outSize = (dst, Some ErrReconstructRequired)"
    by (simp add: Join_def)
next
  assume s: "DataShards r \<le> length shards \<and> NilSlice \<notin> set (take (DataShards r) shards) \<and>
            sum_list (map (\<lambda>s. int (len s)) (take (DataShards r) shards)) < outSize"
  let ?xs = "take (DataShards r) shards"
  from s have "joinSize ?xs outSize 0 = Inr (0 + sum_list (map (\<lambda>s. int (len s)) ?xs))"
    by (intro joinSize_short) simp_all
  with s show "Join r wr dst shards outSize = (dst, Some ErrShortData)"
    by (simp add: Join_def)
qed

theorem Join_errors_witness:
  "Join coder21 bufferWrite [] [Slice [1, 2] []] 4 = ([], Some ErrTooFewShards) \<and>
   Join coder21 bufferWrite [] [Slice [1, 2] [], NilSlice, Slice [5, 14] []] 4
     = ([], Some ErrReconstructRequired) \<and>
   Join coder21 bufferWrite [] [Slice [1, 2] [], Slice [3] [], Slice [5, 14] []] 4
     = ([], Some ErrShortData)"
  using Join_errors [where shards = "[Slice [1, 2] []]" and r = coder21 and k = 0
      and wr = bufferWrite and dst = "[]" and outSize = 4]
    Join_errors [where shards = "[Slice [1, 2] [], NilSlice, Slice [5, 14] []]" and r = coder21
      and k = 1 and wr = bufferWrite and dst = "[]" and outSize = 4]
    Join_errors [where shards = "[Slice [1, 2] [], Slice [3] [], Slice [5, 14] []]"
      and r = coder21 and k = 0 and wr = bufferWrite and dst = "[]" and outSize = 4]
  by (simp add: coder21_def len_def)

text \<open>
  The claim as stated asks for ReconstructRequired whenever one of the first
  \<open>DataShards\<close> shards is empty. The size loop of Join stops as soon as \<open>outSize\<close> bytes
  are covered, so a \<^verbatim>\<open>nil\<close> shard behind that point is never looked at; and the loop
  tests for \<^verbatim>\<open>nil\<close>, so an empty shard that is not \<^verbatim>\<open>nil\<close> passes.
\<close>

theorem Join_required_counterexample:
  "New 2 1 testOptions = Inr coder21 \<and>
   Join coder21 bufferWrite [] [Slice [1, 2] [], NilSlice, Slice [5, 14] []] 2 = ([1, 2], None) \<and>
   Join coder21 bufferWrite [] [Slice [] [], Slice [1, 2] [], Slice [5, 14] []] 2 = ([1, 2], None)"
  apply (simp add: New_coder21)
  apply (simp add: Join_def coder21_def bufferWrite_def len_def)
  done

section \<open>Coders built by New\<close>

lemma New_counts:
  assumes "New dataShards parityShards opts = Inr r"
  shows "0 < DataShards r" and "0 < ParityShards r"
    and "Shards r = DataShards r + ParityShards r" and "Shards r \<le> 256"
    and "DataShards r = nat dataShards" and "ParityShards r = nat parityShards"
    and "o_options r = opts"
  using assms by (auto simp: New_def nat_add_distrib split: if_splits sum.splits)

section \<open>Split followed by Join\<close>

lemma joinSize_enough:
  "NilSlice \<notin> set xs \<Longrightarrow> outSize \<le> sz + sum_list (map (\<lambda>s. int (len s)) xs)
   \<Longrightarrow> \<exists>sz'. joinSize xs outSize sz = Inr sz' \<and> outSize \<le> sz'"
  by (induction xs arbitrary: sz) (auto simp: Let_def add.assoc)

lemma joinWrite_buffer:
  "0 \<le> w \<Longrightarrow> joinWrite bufferWrite dst xs w
     = (dst @ take (nat w) (concat (map elems xs)), None)"
proof (induction xs arbitrary: dst w)
  case Nil
  then show ?case by simp
next
  case (Cons x xs)
  show ?case
  proof (cases "w < int (len x)")
    case True
    with Cons.prems show ?thesis
      by (simp add: bufferWrite_def len_def)
  next
    case False
    then have "0 \<le> w - int (len x)" by simp
    from Cons.IH [OF this, of "dst @ elems x"] False show ?thesis
      by (simp add: bufferWrite_def len_def nat_diff_distrib')
  qed
qed

lemma splitShards_concat:
  "concat (map elems (splitShards n perShard buf)) = take (n * perShard) buf"
proof (induction n arbitrary: buf)
  case 0
  then show ?case by simp
next
  case (Suc n)
  then show ?case by (simp add: take_add add.commute)
qed

lemma splitShards_take:
  "d \<le> n \<Longrightarrow> take d (splitShards n perShard buf) = splitShards d perShard buf"
proof (induction n arbitrary: d buf)
  case 0
  then show ?case by simp
next
  case (Suc n)
  then show ?case by (cases d) simp_all
qed

lemma splitShards_length: "length (splitShards n perShard buf) = n"
  by (induction n arbitrary: buf) simp_all

lemma splitShards_not_nil: "NilSlice \<notin> set (splitShards n perShard buf)"
  by (induction n arbitrary: buf) simp_all

lemma splitShards_total:
  "sum_list (map (\<lambda>s. int (len s)) (splitShards n perShard buf))
     = int (length (take (n * perShard) buf))"
proof -
  have "sum_list (map (\<lambda>s. int (len s)) xs) = int (length (concat (map elems xs)))" for xs
    by (induction xs) (simp_all add: len_def)
  then show ?thesis by (simp only: splitShards_concat)
qed

lemma perShard_covers:
  fixes d n :: nat
  assumes "0 < d"
  shows "n \<le> d * ((n + d - 1) div d)"
proof -
  have "n + d - 1 < d * ((n + d - 1) div d) + d"
    using assms by (metis add.commute dividend_less_times_div mult.commute)
  then show ?thesis by linarith
qed

lemma Split_Join_general:
  assumes "0 < DataShards r" and "DataShards r \<le> Shards r" and "len data \<noteq> 0"
  shows "\<exists>shards. Split r data = Inr shards \<and>
           Join r bufferWrite dst shards (int (len data)) = (dst @ elems data, None)"
proof -
  define d where "d = DataShards r"
  define per where "per = (len data + d - 1) div d"
  define data1 where "data1 = (if cap data > len data then backing data else elems data)"
  define data2 where "data2 = (if length data1 < Shards r * per
                then data1 @ replicate (Shards r * per - length data1) 0 else data1)"
  define shards where "shards = splitShards (Shards r) per data2"
  have split: "Split r data = Inr shards"
    using assms by (simp add: Split_def Let_def shards_def data2_def data1_def per_def d_def)
  have prefix1: "take (len data) data1 = elems data"
    unfolding data1_def by (cases data) (simp_all add: len_def cap_def)
  have len1: "len data \<le> length data1"
    unfolding data1_def by (cases data) (simp_all add: len_def cap_def)
  have prefix2: "take (len data) data2 = elems data"
    using prefix1 len1 by (simp add: data2_def)
  have len2: "Shards r * per \<le> length data2"
    by (simp add: data2_def)
  have cover: "len data \<le> d * per"
    unfolding per_def using assms(1) by (intro perShard_covers) (simp add: d_def)
  have dper: "d * per \<le> length data2"
    using len2 assms(2) unfolding d_def by (meson le_trans mult_le_mono1)
  have tk: "take d shards = splitShards d per data2"
    unfolding shards_def d_def using assms(2) by (rule splitShards_take)
  have tot: "sum_list (map (\<lambda>s. int (len s)) (splitShards d per data2)) = int (d * per)"
    using dper by (simp only: splitShards_total length_take min_absorb2)
  have "int (len data) \<le> int (d * per)"
    using cover by linarith
  then have enough:
    "int (len data) \<le> 0 + sum_list (map (\<lambda>s. int (len s)) (splitShards d per data2))"
    by (simp only: tot add_0)
  from joinSize_enough [OF splitShards_not_nil enough]
  obtain sz' where sz': "joinSize (splitShards d per data2) (int (len data)) 0 = Inr sz'"
    "int (len data) \<le> sz'" by blast
  have "take (len data) (take (d * per) data2) = elems data"
    using cover prefix2 by (simp only: take_take min_absorb1)
  then have wr: "joinWrite bufferWrite dst (splitShards d per data2) (int (len data))
      = (dst @ elems data, None)"
    by (simp add: joinWrite_buffer splitShards_concat del: take_take)
  have "length shards = Shards r"
    by (simp add: shards_def splitShards_length)
  then have "Join r bufferWrite dst shards (int (len data)) = (dst @ elems data, None)"
    using assms(2) sz' wr tk by (simp add: Join_def Let_def d_def)
  with split show ?thesis by blast
qed

text \<open>
  C6. For every coder that New returns and every non-empty data slice, Split succeeds,
  and Join of the shards it returns with \<open>outSize = len data\<close> appends exactly the
  bytes of the data to a byte buffer, and reports no error.
\<close>

theorem Split_Join_roundtrip:
  assumes "New dataShards parityShards opts = Inr r" and "len data \<noteq> 0"
  shows "\<exists>shards. Split r data = Inr shards \<and>
           Join r bufferWrite dst shards (int (len data)) = (dst @ elems data, None)"
proof -
  from New_counts [OF assms(1)] have "0 < DataShards r" "DataShards r \<le> Shards r"
    by simp_all
  then show ?thesis using assms(2) by (rule Split_Join_general)
qed

theorem Split_Join_roundtrip_witness:
  "Split coder21 (Slice [1, 2, 3] [9])
     = Inr [Slice [1, 2] [3, 9, 0, 0], Slice [3, 9] [0, 0], Slice [0, 0] []] \<and>
   Join coder21 bufferWrite [7] [Slice [1, 2] [3, 9, 0, 0], Slice [3, 9] [0, 0], Slice [0, 0] []] 3
     = ([7, 1, 2, 3], None)"
proof -
  have s: "Split coder21 (Slice [1, 2, 3] [9])
     = Inr [Slice [1, 2] [3, 9, 0, 0], Slice [3, 9] [0, 0], Slice [0, 0] []]"
    by code_simp
  have h: "len (Slice [1, 2, 3] [9]) \<noteq> 0"
    by (simp add: len_def)
  from Split_Join_roundtrip [OF New_coder21 h, of "[7]"] s show ?thesis
    by (auto simp: len_def)
qed

section \<open>Reconstruct: too few shards\<close>

lemma shardSize_common:
  assumes "\<forall>s \<in> set shards. len s = 0 \<or> len s = L" and "\<exists>s \<in> set shards. len s \<noteq> 0"
  shows "shardSize shards = L"
  using assms by (induction shards) auto

lemma checkSizes_common:
  "\<forall>s \<in> set shards. len s = 0 \<or> len s = L \<Longrightarrow> checkSizes shards L True = None"
  by (induction shards) auto

lemma checkShards_nilok:
  assumes "\<forall>s \<in> set shards. len s = 0 \<or> len s = L" and "\<exists>s \<in> set shards. len s \<noteq> 0"
  shows "checkShards shards True = None"
proof -
  from assms have "shardSize shards = L" by (rule shardSize_common)
  moreover from assms have "L \<noteq> 0" by auto
  ultimately show ?thesis
    using assms(1) by (simp add: checkShards_def checkSizes_common)
qed

lemma count_present:
  "length (filter (\<lambda>i. P (xs ! i)) [0..<length xs]) = length (filter P xs)"
proof -
  have "filter P (map ((!) xs) [0..<length xs]) = map ((!) xs) (filter (\<lambda>i. P (xs ! i)) [0..<length xs])"
    by (simp add: filter_map comp_def)
  then have "length (filter P (map ((!) xs) [0..<length xs])) = length (filter (\<lambda>i. P (xs ! i)) [0..<length xs])"
    by simp
  then show ?thesis by (simp add: map_nth)
qed

text \<open>
  C8 (as amended). For every coder that New returns, whatever its inversion tree holds,
  and every shard array of length \<open>D + P\<close> in which each shard is empty or of the common
  length \<open>L\<close> and at least one shard is not empty: Reconstruct and ReconstructData fail
  with TooFewShards whenever fewer than \<open>D\<close> shards are non-empty.
\<close>

theorem reconstruct_TooFewShards:
  assumes "New dataShards parityShards opts = Inr r0" and "r = r0\<lparr>tree := t\<rparr>"
    and "length shards = Shards r"
    and "\<forall>s \<in> set shards. len s = 0 \<or> len s = L"
    and "\<exists>s \<in> set shards. len s \<noteq> 0"
    and "length (filter (\<lambda>s. len s \<noteq> 0) shards) < DataShards r"
  shows "Reconstruct r shards = Some (Inl ErrTooFewShards) \<and>
         ReconstructData r shards = Some (Inl ErrTooFewShards)"
proof -
  have cnt: "Shards r = DataShards r + ParityShards r"
    using New_counts(3) [OF assms(1)] assms(2) by simp
  have chk: "checkShards shards True = None"
    using assms(4,5) by (rule checkShards_nilok)
  have np: "length (filter (\<lambda>i. len (shards ! i) \<noteq> 0) [0..<Shards r]) = length (filter (\<lambda>s. len s \<noteq> 0) shards)"
    using count_present [of "\<lambda>s. len s \<noteq> 0" shards] assms(3) by simp
  have dp: "length (filter (\<lambda>i. len (shards ! i) \<noteq> 0 \<and> i < DataShards r) [0..<Shards r])
      \<le> length (filter (\<lambda>i. len (shards ! i) \<noteq> 0) [0..<Shards r])"
  proof -
    have "filter (\<lambda>i. len (shards ! i) \<noteq> 0 \<and> i < DataShards r) [0..<Shards r]
       = filter (\<lambda>i. i < DataShards r) (filter (\<lambda>i. len (shards ! i) \<noteq> 0) [0..<Shards r])"
      by (simp add: conj_commute)
    then show ?thesis by (simp only: length_filter_le)
  qed
  have "reconstruct r shards dataOnly = Some (Inl ErrTooFewShards)" for dataOnly
    using assms(3,6) chk np dp cnt
    by (simp add: reconstruct_def Let_def)
  then show ?thesis by (simp add: Reconstruct_def ReconstructData_def)
qed

theorem reconstruct_TooFewShards_witness:
  "Reconstruct coder21 [NilSlice, Slice [] [1, 2], Slice [5, 14] []] = Some (Inl ErrTooFewShards) \<and>
   ReconstructData coder21 [NilSlice, Slice [] [1, 2], Slice [5, 14] []] = Some (Inl ErrTooFewShards)"
  using reconstruct_TooFewShards [OF New_coder21, of coder21 "tree coder21"
      "[NilSlice, Slice [] [1, 2], Slice [5, 14] []]" 2]
  by (simp add: coder21_def len_def)

text \<open>
  The claim as stated also covers the array whose shards are all empty; there the check
  of the arguments comes first and both calls fail with ShardNoData.
\<close>

theorem reconstruct_all_empty_counterexample:
  "New 2 1 testOptions = Inr coder21 \<and>
   Reconstruct coder21 [NilSlice, NilSlice, NilSlice] = Some (Inl ErrShardNoData) \<and>
   ReconstructData coder21 [NilSlice, NilSlice, NilSlice] = Some (Inl ErrShardNoData)"
  by (simp add: New_coder21 Reconstruct_def ReconstructData_def reconstruct_def coder21_def
      checkShards_def len_def)

section \<open>ReconstructData: the parity entries\<close>

lemma prepareShards_drop:
  "\<forall>i \<in> set missing. i < d \<Longrightarrow> drop d (prepareShards shards missing sz) = drop d shards"
  by (induction missing arbitrary: shards) (simp_all add: drop_update_cancel)

lemma storeShards_drop:
  "\<forall>i \<in> set missing. i < d \<Longrightarrow> drop d (storeShards shards missing outs) = drop d shards"
  by (induction shards missing outs rule: storeShards.induct) (simp_all add: drop_update_cancel)

text \<open>
  C10. Whenever ReconstructData succeeds, the entries \<open>shards[D..S]\<close> of the array are
  the slices that were supplied: same bytes, same capacity, and \<^verbatim>\<open>nil\<close> where it was
  \<^verbatim>\<open>nil\<close>.
\<close>

theorem ReconstructData_parity_untouched:
  assumes "ReconstructData r shards = Some (Inr (shards', t))"
  shows "drop (DataShards r) shards' = drop (DataShards r) shards"
proof -
  have miss: "\<forall>i \<in> set (filter (\<lambda>i. len (shards ! i) = 0) [0..<DataShards r]). i < DataShards r"
    by simp
  from assms show ?thesis
    by (auto simp: ReconstructData_def reconstruct_def Let_def recode_def
        prepareShards_drop [OF miss] storeShards_drop [OF miss]
        split: if_splits option.splits sum.splits prod.splits)
qed

theorem ReconstructData_parity_untouched_witness:
  "ReconstructData coder21 [NilSlice, Slice [3, 4] [], Slice [5, 14] [8]]
     = Some (Inr ([Slice [1, 2] [], Slice [3, 4] [], Slice [5, 14] [8]],
          \<lparr>treeRoot = [[1, 0], [0, 1]], treeParity = 1, treeCache = [([0], [[245, 244], [1, 0]])]\<rparr>)) \<and>
   drop (DataShards coder21) [Slice [1, 2] [], Slice [3, 4] [], Slice [5, 14] [8]]
     = drop (DataShards coder21) [NilSlice, Slice [3, 4] [], Slice [5, 14] [8]]"
proof -
  have e: "ReconstructData coder21 [NilSlice, Slice [3, 4] [], Slice [5, 14] [8]]
     = Some (Inr ([Slice [1, 2] [], Slice [3, 4] [], Slice [5, 14] [8]],
          \<lparr>treeRoot = [[1, 0], [0, 1]], treeParity = 1, treeCache = [([0], [[245, 244], [1, 0]])]\<rparr>))"
    by code_simp
  from ReconstructData_parity_untouched [OF e] e show ?thesis by simp
qed

end
